theory Spec2Isabelle
  imports Complex_Main "HOL-Library.Word"
begin

section \<open>Node reputation: the audit-outcome state machine of \<open>reputations.Update\<close>\<close>

text \<open>
  This theory embeds the Go code of the \<open>reputations\<close> type (package \<open>satellitedb\<close>):
  \<open>Update\<close>, \<open>populateUpdateFields\<close>, \<open>populateUpdateNodeStats\<close>, \<open>updateReputation\<close>,
  \<open>getNodeStatus\<close> and \<open>UnsuspendNodeUnknownAudit\<close>.

  Conventions of the embedding:
  \<^item> \<open>time.Time\<close> is an instant counted in nanoseconds (\<open>int\<close>); \<open>time.Duration\<close> is an
    \<open>int\<close> of nanoseconds in the int64 range, and \<open>Time.Sub\<close> saturates at that range as
    Go's does.
  \<^item> \<open>time.Since\<close> reads the wall clock, which is an explicit argument \<open>clock\<close>
    wherever the code reaches it; it is a different value from the argument \<open>now\<close>.
  \<^item> \<open>int64\<close> counters are \<open>64 word\<close>; \<open>+\<close> wraps, comparisons are signed.
  \<^item> \<open>float64\<close> values are exact reals: rounding, overflow to infinity and signed zeros
    are not modelled. Division is the one operation whose IEEE special cases are written
    out (\<open>float_div\<close>), because Go divides by zero without a panic and the result decides
    the comparisons that follow.
  \<^item> A nullable column (\<open>*time.Time\<close>) is an \<open>option\<close>.
  \<^item> The table is a map from node ids to rows; a transaction either commits the map its
    body produced or leaves the table as it was.
\<close>

subsection \<open>Basic types\<close>

type_synonym Time = int
type_synonym Duration = int
type_synonym int64 = "64 word"
type_synonym float64 = real
type_synonym bytes = "8 word list"
type_synonym NodeID = bytes

definition maxDuration :: Duration where
  "maxDuration = 2 ^ 63 - 1"

definition minDuration :: Duration where
  "minDuration = - (2 ^ 63)"

text \<open>\<open>t.Sub(u)\<close>: the difference, or the nearest bound when it does not fit a Duration.\<close>

definition time_Sub :: "Time \<Rightarrow> Time \<Rightarrow> Duration" where
  "time_Sub t u =
     (let d = t - u in
      if d > maxDuration then maxDuration
      else if d < minDuration then minDuration
      else d)"

text \<open>\<open>time.Since(t)\<close> is \<open>time.Now().Sub(t)\<close>; \<open>clock\<close> is the reading of \<open>time.Now()\<close>.\<close>

definition time_Since :: "Time \<Rightarrow> Time \<Rightarrow> Duration" where
  "time_Since clock t = time_Sub clock t"

definition time_Add :: "Time \<Rightarrow> Duration \<Rightarrow> Time" where
  "time_Add t d = t + d"

definition time_After :: "Time \<Rightarrow> Time \<Rightarrow> bool" where
  "time_After t u = (t > u)"

text \<open>
  The quotient of two float64 values. A zero divisor gives NaN for \<open>0 / 0\<close> and an
  infinity otherwise; every comparison with NaN is false.
\<close>

datatype quotient = Finite real | PosInf | NegInf | NaN

definition float_div :: "float64 \<Rightarrow> float64 \<Rightarrow> quotient" where
  "float_div a b =
     (if b \<noteq> 0 then Finite (a / b)
      else if a = 0 then NaN
      else if a > 0 then PosInf
      else NegInf)"

fun float_le :: "quotient \<Rightarrow> float64 \<Rightarrow> bool" where
  "float_le (Finite x) t = (x \<le> t)"
| "float_le PosInf t = False"
| "float_le NegInf t = True"
| "float_le NaN t = False"

subsection \<open>Rows, requests and update records\<close>

datatype AuditType = AuditSuccess | AuditFailure | AuditUnknown | AuditOffline

text \<open>
  \<open>dbx.Reputation\<close>: the row, with the columns the code of \<open>reputations\<close> reads or
  writes.
\<close>

record Reputation =
  Id :: NodeID
  AuditSuccessCount :: int64
  TotalAuditCount :: int64
  VettedAt :: "Time option"
  Contained :: bool
  Disqualified :: "Time option"
  Suspended :: "Time option"
  UnknownAuditSuspended :: "Time option"
  OfflineSuspended :: "Time option"
  UnderReview :: "Time option"
  OnlineScore :: float64
  AuditHistory :: bytes
  AuditReputationAlpha :: float64
  AuditReputationBeta :: float64
  UnknownAuditReputationAlpha :: float64
  UnknownAuditReputationBeta :: float64

text \<open>\<open>overlay.ReputationStatus\<close>.\<close>

record ReputationStatus =
  st_Contained :: bool
  st_Disqualified :: "Time option"
  st_UnknownAuditSuspended :: "Time option"
  st_OfflineSuspended :: "Time option"
  st_VettedAt :: "Time option"

text \<open>\<open>reputation.AuditHistoryConfig\<close> and \<open>reputation.UpdateRequest\<close>.\<close>

record AuditHistoryConfig =
  OfflineSuspensionEnabled :: bool
  OfflineThreshold :: float64
  GracePeriod :: Duration
  TrackingPeriod :: Duration
  OfflineDQEnabled :: bool

record UpdateRequest =
  NodeID :: NodeID
  AuditOutcome :: AuditType
  AuditLambda :: float64
  AuditWeight :: float64
  AuditDQ :: float64
  AuditsRequiredForVetting :: int64
  SuspensionGracePeriod :: Duration
  SuspensionDQEnabled :: bool
  req_AuditHistory :: AuditHistoryConfig

text \<open>\<open>reputation.UpdateAuditHistoryResponse\<close>.\<close>

record UpdateAuditHistoryResponse =
  NewScore :: float64
  TrackingPeriodFull :: bool

text \<open>
  \<open>int64Field\<close>, \<open>float64Field\<close> and \<open>boolField\<close> share one shape; \<open>timeField\<close> has
  the extra flag \<open>isNil\<close>.
\<close>

record 'a valField =
  is_set :: bool
  val :: 'a

record timeField =
  t_set :: bool
  t_isNil :: bool
  t_value :: Time

definition unsetVal :: "'a \<Rightarrow> 'a valField" where
  "unsetVal z = \<lparr>is_set = False, val = z\<rparr>"

definition unsetTime :: timeField where
  "unsetTime = \<lparr>t_set = False, t_isNil = False, t_value = 0\<rparr>"

definition setTime :: "Time \<Rightarrow> timeField" where
  "setTime t = \<lparr>t_set = True, t_isNil = False, t_value = t\<rparr>"

definition setNil :: timeField where
  "setNil = \<lparr>t_set = True, t_isNil = True, t_value = 0\<rparr>"

record updateNodeStats =
  u_NodeID :: NodeID
  u_VettedAt :: timeField
  u_TotalAuditCount :: "int64 valField"
  u_AuditReputationAlpha :: "float64 valField"
  u_AuditReputationBeta :: "float64 valField"
  u_Disqualified :: timeField
  u_UnknownAuditReputationAlpha :: "float64 valField"
  u_UnknownAuditReputationBeta :: "float64 valField"
  u_UnknownAuditSuspended :: timeField
  u_LastContactSuccess :: timeField
  u_LastContactFailure :: timeField
  u_AuditSuccessCount :: "int64 valField"
  u_Contained :: "bool valField"
  u_OfflineUnderReview :: timeField
  u_OfflineSuspended :: timeField
  u_OnlineScore :: "float64 valField"

text \<open>
  A field of \<open>dbx.Reputation_Update_Fields\<close>: left alone, set to NULL, or set to a value.
\<close>

datatype 'a field = Untouched | Null | Value 'a

text \<open>
  \<open>dbx.Reputation_Update_Fields\<close>. A column that is not nullable has no \<open>_Null\<close>
  constructor in generated dbx code, so its field is an \<open>option\<close>: \<open>None\<close> leaves the
  column alone.
\<close>

record Reputation_Update_Fields =
  f_VettedAt :: "Time field"
  f_TotalAuditCount :: "int64 option"
  f_AuditReputationAlpha :: "float64 option"
  f_AuditReputationBeta :: "float64 option"
  f_Disqualified :: "Time field"
  f_UnknownAuditReputationAlpha :: "float64 option"
  f_UnknownAuditReputationBeta :: "float64 option"
  f_UnknownAuditSuspended :: "Time field"
  f_AuditSuccessCount :: "int64 option"
  f_Contained :: "bool option"
  f_OnlineScore :: "float64 option"
  f_OfflineSuspended :: "Time field"
  f_UnderReview :: "Time field"

text \<open>The zero value \<open>dbx.Reputation_Update_Fields{}\<close>.\<close>

definition no_fields :: Reputation_Update_Fields where
  "no_fields =
     \<lparr>f_VettedAt = Untouched, f_TotalAuditCount = None,
      f_AuditReputationAlpha = None, f_AuditReputationBeta = None,
      f_Disqualified = Untouched, f_UnknownAuditReputationAlpha = None,
      f_UnknownAuditReputationBeta = None, f_UnknownAuditSuspended = Untouched,
      f_AuditSuccessCount = None, f_Contained = None,
      f_OnlineScore = None, f_OfflineSuspended = Untouched,
      f_UnderReview = Untouched\<rparr>"

subsection \<open>\<open>updateReputation\<close>\<close>

definition updateReputation ::
  "bool \<Rightarrow> float64 \<Rightarrow> float64 \<Rightarrow> float64 \<Rightarrow> float64 \<Rightarrow> int64 \<Rightarrow> float64 \<times> float64 \<times> int64" where
  "updateReputation isSuccess alpha beta lambda w totalCount =
     (let v = (if isSuccess then 1 else - 1);
          newAlpha = lambda * alpha + w * (1 + v) / 2;
          newBeta = lambda * beta + w * (1 - v) / 2
      in (newAlpha, newBeta, totalCount + 1))"

subsection \<open>\<open>populateUpdateNodeStats\<close>\<close>

text \<open>
  The function is one straight line of blocks, each of which assigns a few fields of
  \<open>updateFields\<close>. Every block is a definition of its own here, in the order of the
  source, and \<open>populateUpdateNodeStats\<close> chains them.

  The \<open>switch\<close> on the audit outcome: the four parameters and
  \<open>updatedTotalAuditCount\<close>.
\<close>

definition switchOutcome ::
  "Reputation \<Rightarrow> UpdateRequest \<Rightarrow> float64 \<times> float64 \<times> float64 \<times> float64 \<times> int64" where
  "switchOutcome dbNode updateReq =
     (let auditAlpha = AuditReputationAlpha dbNode;
          auditBeta = AuditReputationBeta dbNode;
          unknownAuditAlpha = UnknownAuditReputationAlpha dbNode;
          unknownAuditBeta = UnknownAuditReputationBeta dbNode;
          totalAuditCount = TotalAuditCount dbNode
      in case AuditOutcome updateReq of
           AuditSuccess \<Rightarrow>
             (let (a, b, n) = updateReputation True auditAlpha auditBeta
                                (AuditLambda updateReq) (AuditWeight updateReq) totalAuditCount;
                  (ua, ub, _) = updateReputation True unknownAuditAlpha unknownAuditBeta
                                (AuditLambda updateReq) (AuditWeight updateReq) totalAuditCount
              in (a, b, ua, ub, n))
         | AuditFailure \<Rightarrow>
             (let (a, b, n) = updateReputation False auditAlpha auditBeta
                                (AuditLambda updateReq) (AuditWeight updateReq) totalAuditCount
              in (a, b, unknownAuditAlpha, unknownAuditBeta, n))
         | AuditUnknown \<Rightarrow>
             (let (ua, ub, n) = updateReputation False unknownAuditAlpha unknownAuditBeta
                                (AuditLambda updateReq) (AuditWeight updateReq) totalAuditCount
              in (auditAlpha, auditBeta, ua, ub, n))
         | AuditOffline \<Rightarrow>
             (auditAlpha, auditBeta, unknownAuditAlpha, unknownAuditBeta, totalAuditCount + 1))"

text \<open>The composite literal that initialises \<open>updateFields\<close>.\<close>

definition initialFields ::
  "UpdateRequest \<Rightarrow> UpdateAuditHistoryResponse \<Rightarrow>
   float64 \<times> float64 \<times> float64 \<times> float64 \<times> int64 \<Rightarrow> updateNodeStats" where
  "initialFields updateReq auditHistoryResponse p =
     (case p of (auditAlpha, auditBeta, unknownAuditAlpha, unknownAuditBeta, updatedTotalAuditCount) \<Rightarrow>
      \<lparr>u_NodeID = NodeID updateReq,
       u_VettedAt = unsetTime,
       u_TotalAuditCount = \<lparr>is_set = True, val = updatedTotalAuditCount\<rparr>,
       u_AuditReputationAlpha = \<lparr>is_set = True, val = auditAlpha\<rparr>,
       u_AuditReputationBeta = \<lparr>is_set = True, val = auditBeta\<rparr>,
       u_Disqualified = unsetTime,
       u_UnknownAuditReputationAlpha = \<lparr>is_set = True, val = unknownAuditAlpha\<rparr>,
       u_UnknownAuditReputationBeta = \<lparr>is_set = True, val = unknownAuditBeta\<rparr>,
       u_UnknownAuditSuspended = unsetTime,
       u_LastContactSuccess = unsetTime,
       u_LastContactFailure = unsetTime,
       u_AuditSuccessCount = unsetVal 0,
       u_Contained = \<lparr>is_set = True, val = False\<rparr>,
       u_OfflineUnderReview = unsetTime,
       u_OfflineSuspended = unsetTime,
       u_OnlineScore = \<lparr>is_set = True, val = NewScore auditHistoryResponse\<rparr>\<rparr>)"

text \<open>\<open>if vettedAt == nil && updatedTotalAuditCount >= updateReq.AuditsRequiredForVetting\<close>.\<close>

definition vettingBlock ::
  "Reputation \<Rightarrow> UpdateRequest \<Rightarrow> Time \<Rightarrow> int64 \<Rightarrow> updateNodeStats \<Rightarrow> updateNodeStats" where
  "vettingBlock dbNode updateReq now updatedTotalAuditCount updateFields =
     (if VettedAt dbNode = None \<and>
         word_sle (AuditsRequiredForVetting updateReq) updatedTotalAuditCount
      then updateFields\<lparr>u_VettedAt := setTime now\<rparr>
      else updateFields)"

text \<open>Disqualification case a: the audit reputation is at or below the threshold.\<close>

definition auditDQBlock ::
  "UpdateRequest \<Rightarrow> Time \<Rightarrow> float64 \<Rightarrow> float64 \<Rightarrow> updateNodeStats \<Rightarrow> updateNodeStats" where
  "auditDQBlock updateReq now auditAlpha auditBeta updateFields =
     (let auditRep = float_div auditAlpha (auditAlpha + auditBeta)
      in if float_le auditRep (AuditDQ updateReq)
         then updateFields\<lparr>u_Disqualified := setTime now\<rparr>
         else updateFields)"

text \<open>
  Unknown-audit suspension and disqualification case b. The grace period is measured
  by \<open>time.Since\<close>, that is against \<open>clock\<close>.
\<close>

definition unknownAuditBlock ::
  "Time \<Rightarrow> Reputation \<Rightarrow> UpdateRequest \<Rightarrow> Time \<Rightarrow> float64 \<Rightarrow> float64 \<Rightarrow>
   updateNodeStats \<Rightarrow> updateNodeStats" where
  "unknownAuditBlock clock dbNode updateReq now unknownAuditAlpha unknownAuditBeta updateFields =
     (let unknownAuditRep = float_div unknownAuditAlpha (unknownAuditAlpha + unknownAuditBeta)
      in if float_le unknownAuditRep (AuditDQ updateReq) then
           (let updateFields1 =
                  (if UnknownAuditSuspended dbNode = None
                   then updateFields\<lparr>u_UnknownAuditSuspended := setTime now\<rparr>
                   else updateFields)
            in if AuditOutcome updateReq \<noteq> AuditSuccess then
                 (if (case UnknownAuditSuspended dbNode of
                        None \<Rightarrow> False
                      | Some suspendedAt \<Rightarrow>
                          \<not> t_set (u_UnknownAuditSuspended updateFields1) \<and>
                          time_Since clock suspendedAt > SuspensionGracePeriod updateReq \<and>
                          SuspensionDQEnabled updateReq)
                  then updateFields1\<lparr>u_Disqualified := setTime now,
                                      u_UnknownAuditSuspended := setNil\<rparr>
                  else updateFields1)
               else updateFields1)
         else if UnknownAuditSuspended dbNode \<noteq> None
         then updateFields\<lparr>u_UnknownAuditSuspended := setNil\<rparr>
         else updateFields)"

text \<open>\<open>LastContactSuccess\<close> or \<open>LastContactFailure\<close>.\<close>

definition contactBlock :: "bool \<Rightarrow> Time \<Rightarrow> updateNodeStats \<Rightarrow> updateNodeStats" where
  "contactBlock isUp now updateFields =
     (if isUp then updateFields\<lparr>u_LastContactSuccess := setTime now\<rparr>
      else updateFields\<lparr>u_LastContactFailure := setTime now\<rparr>)"

definition successCountBlock ::
  "Reputation \<Rightarrow> UpdateRequest \<Rightarrow> updateNodeStats \<Rightarrow> updateNodeStats" where
  "successCountBlock dbNode updateReq updateFields =
     (if AuditOutcome updateReq = AuditSuccess
      then updateFields\<lparr>u_AuditSuccessCount :=
             \<lparr>is_set = True, val = AuditSuccessCount dbNode + 1\<rparr>\<rparr>
      else updateFields)"

text \<open>
  Offline suspension: the early return when it is disabled, then the review window.
\<close>

definition offlineBlock ::
  "Reputation \<Rightarrow> UpdateRequest \<Rightarrow> UpdateAuditHistoryResponse \<Rightarrow> Time \<Rightarrow>
   updateNodeStats \<Rightarrow> updateNodeStats" where
  "offlineBlock dbNode updateReq auditHistoryResponse now updateFields =
     (let cfg = req_AuditHistory updateReq
      in if \<not> OfflineSuspensionEnabled cfg then
           (let updateFields1 =
                  (if OfflineSuspended dbNode \<noteq> None
                   then updateFields\<lparr>u_OfflineSuspended := setNil\<rparr>
                   else updateFields)
            in if UnderReview dbNode \<noteq> None
               then updateFields1\<lparr>u_OfflineUnderReview := setNil\<rparr>
               else updateFields1)
         else
           (let penalizeOfflineNode =
                  (NewScore auditHistoryResponse < OfflineThreshold cfg \<and>
                   TrackingPeriodFull auditHistoryResponse)
            in case UnderReview dbNode of
                 Some underReview \<Rightarrow>
                   (let updateFields1 =
                          (if \<not> penalizeOfflineNode \<and> OfflineSuspended dbNode \<noteq> None
                           then updateFields\<lparr>u_OfflineSuspended := setNil\<rparr>
                           else if penalizeOfflineNode \<and> OfflineSuspended dbNode = None
                           then updateFields\<lparr>u_OfflineSuspended := setTime now\<rparr>
                           else updateFields);
                        gracePeriodEnd = time_Add underReview (GracePeriod cfg);
                        trackingPeriodEnd = time_Add gracePeriodEnd (TrackingPeriod cfg);
                        trackingPeriodPassed = time_After now trackingPeriodEnd
                    in if trackingPeriodPassed then
                         (if penalizeOfflineNode then
                            (if OfflineDQEnabled cfg
                             then updateFields1\<lparr>u_Disqualified := setTime now\<rparr>
                             else updateFields1)
                          else updateFields1\<lparr>u_OfflineUnderReview := setNil,
                                              u_OfflineSuspended := setNil\<rparr>)
                       else updateFields1)
               | None \<Rightarrow>
                   (if penalizeOfflineNode
                    then updateFields\<lparr>u_OfflineUnderReview := setTime now,
                                       u_OfflineSuspended := setTime now\<rparr>
                    else updateFields)))"

definition populateUpdateNodeStats ::
  "Time \<Rightarrow> Reputation \<Rightarrow> UpdateRequest \<Rightarrow> UpdateAuditHistoryResponse \<Rightarrow> Time \<Rightarrow>
   updateNodeStats" where
  "populateUpdateNodeStats clock dbNode updateReq auditHistoryResponse now =
     (let p = switchOutcome dbNode updateReq
      in case p of (auditAlpha, auditBeta, unknownAuditAlpha, unknownAuditBeta, updatedTotalAuditCount) \<Rightarrow>
         (let isUp = (AuditOutcome updateReq \<noteq> AuditOffline);
              updateFields = initialFields updateReq auditHistoryResponse p;
              updateFields = vettingBlock dbNode updateReq now updatedTotalAuditCount updateFields;
              updateFields = auditDQBlock updateReq now auditAlpha auditBeta updateFields;
              updateFields = unknownAuditBlock clock dbNode updateReq now
                               unknownAuditAlpha unknownAuditBeta updateFields;
              updateFields = contactBlock isUp now updateFields;
              updateFields = successCountBlock dbNode updateReq updateFields
          in offlineBlock dbNode updateReq auditHistoryResponse now updateFields))"

subsection \<open>\<open>populateUpdateFields\<close>\<close>

text \<open>
  The translation of an \<open>updateNodeStats\<close> into dbx update fields. \<open>VettedAt\<close> and
  \<open>Disqualified\<close> are copied by value only (the source never looks at their \<open>isNil\<close>);
  the three suspension columns honour \<open>isNil\<close>.
\<close>

definition valueOf :: "'a valField \<Rightarrow> 'a option" where
  "valueOf f = (if is_set f then Some (val f) else None)"

definition timeValueOf :: "timeField \<Rightarrow> Time field" where
  "timeValueOf f = (if t_set f then Value (t_value f) else Untouched)"

definition timeOrNullOf :: "timeField \<Rightarrow> Time field" where
  "timeOrNullOf f =
     (if t_set f then (if t_isNil f then Null else Value (t_value f)) else Untouched)"

definition populateUpdateFields ::
  "Time \<Rightarrow> Reputation \<Rightarrow> UpdateRequest \<Rightarrow> UpdateAuditHistoryResponse \<Rightarrow> Time \<Rightarrow>
   Reputation_Update_Fields" where
  "populateUpdateFields clock dbNode updateReq auditHistoryResponse now =
     (let update = populateUpdateNodeStats clock dbNode updateReq auditHistoryResponse now
      in \<lparr>f_VettedAt = timeValueOf (u_VettedAt update),
          f_TotalAuditCount = valueOf (u_TotalAuditCount update),
          f_AuditReputationAlpha = valueOf (u_AuditReputationAlpha update),
          f_AuditReputationBeta = valueOf (u_AuditReputationBeta update),
          f_Disqualified = timeValueOf (u_Disqualified update),
          f_UnknownAuditReputationAlpha = valueOf (u_UnknownAuditReputationAlpha update),
          f_UnknownAuditReputationBeta = valueOf (u_UnknownAuditReputationBeta update),
          f_UnknownAuditSuspended = timeOrNullOf (u_UnknownAuditSuspended update),
          f_AuditSuccessCount =
            (if AuditOutcome updateReq = AuditSuccess
             then Some (AuditSuccessCount dbNode + 1)
             else valueOf (u_AuditSuccessCount update)),
          f_Contained = valueOf (u_Contained update),
          f_OnlineScore = valueOf (u_OnlineScore update),
          f_OfflineSuspended = timeOrNullOf (u_OfflineSuspended update),
          f_UnderReview = timeOrNullOf (u_OfflineUnderReview update)\<rparr>)"

subsection \<open>The table and its generated accessors\<close>

datatype error =
    ErrNoRows
  | ConstraintViolation
  | TrackerFailure
  | NilPointerDereference

type_synonym store = "NodeID \<rightharpoonup> Reputation"

text \<open>
  Modelled from the spec: the schema of table \<open>reputations\<close> is not under src/, so the
  column defaults that \<open>INSERT INTO reputations (id, audit_history)\<close> leaves to the
  database are taken from the spec's "zero-value record (zero alphas/betas, empty
  history)": numbers are zero, \<open>contained\<close> is false, timestamps are NULL.
\<close>

definition insertedRow :: "NodeID \<Rightarrow> bytes \<Rightarrow> Reputation" where
  "insertedRow nodeID historyBytes =
     \<lparr>Id = nodeID, AuditSuccessCount = 0, TotalAuditCount = 0, VettedAt = None,
      Contained = False, Disqualified = None, Suspended = None,
      UnknownAuditSuspended = None, OfflineSuspended = None, UnderReview = None,
      OnlineScore = 0, AuditHistory = historyBytes,
      AuditReputationAlpha = 0, AuditReputationBeta = 0,
      UnknownAuditReputationAlpha = 0, UnknownAuditReputationBeta = 0\<rparr>"

text \<open>\<open>pb.Marshal(&internalpb.AuditHistory{})\<close>: an empty message has an empty encoding.\<close>

definition emptyHistoryBytes :: bytes where
  "emptyHistoryBytes = []"

text \<open>The \<open>INSERT\<close> statement: the primary key rejects a second row for the node.\<close>

definition insertReputation :: "store \<Rightarrow> NodeID \<Rightarrow> bytes \<Rightarrow> error + store" where
  "insertReputation tx nodeID historyBytes =
     (case tx nodeID of
        Some _ \<Rightarrow> Inl ConstraintViolation
      | None \<Rightarrow> Inr (tx(nodeID \<mapsto> insertedRow nodeID historyBytes)))"

text \<open>
  Modelled from the spec: \<open>Get_Reputation_By_Id\<close> is generated dbx code that is not
  under src/ (\<open>GetByID(id) \<rightarrow> record | NotFound\<close> of the spec). It follows the generated
  \<open>Get_Node_By_Id\<close>, which is under src/: a missing row is \<open>sql.ErrNoRows\<close>.
\<close>

definition Get_Reputation_By_Id :: "store \<Rightarrow> NodeID \<Rightarrow> error + Reputation" where
  "Get_Reputation_By_Id tx nodeID =
     (case tx nodeID of None \<Rightarrow> Inl ErrNoRows | Some row \<Rightarrow> Inr row)"

text \<open>
  Modelled from the spec: \<open>Update_Reputation_By_Id\<close> is generated dbx code that is not
  under src/ (\<open>UpdateFields(tx, id, fieldset) \<rightarrow> record\<close> of the spec). It follows the
  generated \<open>Update_Node_By_Id\<close>, which is under src/: every field that is set is written,
  the row is returned as it is after the write, and a missing row gives \<open>nil, nil\<close>.
\<close>

definition setColumn :: "'a option \<Rightarrow> 'a \<Rightarrow> 'a" where
  "setColumn f old = (case f of None \<Rightarrow> old | Some v \<Rightarrow> v)"

definition setNullable :: "'a field \<Rightarrow> 'a option \<Rightarrow> 'a option" where
  "setNullable f old = (case f of Untouched \<Rightarrow> old | Null \<Rightarrow> None | Value v \<Rightarrow> Some v)"

definition applyUpdate :: "Reputation_Update_Fields \<Rightarrow> Reputation \<Rightarrow> Reputation" where
  "applyUpdate f row =
     row\<lparr>VettedAt := setNullable (f_VettedAt f) (VettedAt row),
         TotalAuditCount := setColumn (f_TotalAuditCount f) (TotalAuditCount row),
         AuditReputationAlpha := setColumn (f_AuditReputationAlpha f) (AuditReputationAlpha row),
         AuditReputationBeta := setColumn (f_AuditReputationBeta f) (AuditReputationBeta row),
         Disqualified := setNullable (f_Disqualified f) (Disqualified row),
         UnknownAuditReputationAlpha :=
           setColumn (f_UnknownAuditReputationAlpha f) (UnknownAuditReputationAlpha row),
         UnknownAuditReputationBeta :=
           setColumn (f_UnknownAuditReputationBeta f) (UnknownAuditReputationBeta row),
         UnknownAuditSuspended := setNullable (f_UnknownAuditSuspended f) (UnknownAuditSuspended row),
         AuditSuccessCount := setColumn (f_AuditSuccessCount f) (AuditSuccessCount row),
         Contained := setColumn (f_Contained f) (Contained row),
         OnlineScore := setColumn (f_OnlineScore f) (OnlineScore row),
         OfflineSuspended := setNullable (f_OfflineSuspended f) (OfflineSuspended row),
         UnderReview := setNullable (f_UnderReview f) (UnderReview row)\<rparr>"

definition Update_Reputation_By_Id ::
  "store \<Rightarrow> NodeID \<Rightarrow> Reputation_Update_Fields \<Rightarrow> Reputation option \<times> store" where
  "Update_Reputation_By_Id tx nodeID f =
     (case tx nodeID of
        None \<Rightarrow> (None, tx)
      | Some row \<Rightarrow> (Some (applyUpdate f row), tx(nodeID \<mapsto> applyUpdate f row)))"

text \<open>
  Modelled from the spec: \<open>updateAuditHistoryWithTx\<close> is not under src/. It is the
  AuditHistoryTracker of the spec, \<open>Record(historyBlob, now, isUp, config) \<rightarrow>
  (newHistoryBlob, onlineScore, trackingPeriodFull)\<close>, pure from this code's point of
  view; the tracker itself is the parameter \<open>tracker\<close>, and the returned blob is
  persisted in the row inside the same transaction.
\<close>

type_synonym tracker =
  "bytes \<Rightarrow> Time \<Rightarrow> bool \<Rightarrow> AuditHistoryConfig \<Rightarrow> error + bytes \<times> UpdateAuditHistoryResponse"

definition updateAuditHistoryWithTx ::
  "tracker \<Rightarrow> store \<Rightarrow> NodeID \<Rightarrow> Time \<Rightarrow> bool \<Rightarrow> AuditHistoryConfig \<Rightarrow>
   error + store \<times> UpdateAuditHistoryResponse" where
  "updateAuditHistoryWithTx record_audit tx nodeID now isUp cfg =
     (case tx nodeID of
        None \<Rightarrow> Inl ErrNoRows
      | Some row \<Rightarrow>
          (case record_audit (AuditHistory row) now isUp cfg of
             Inl err \<Rightarrow> Inl err
           | Inr (historyBytes, response) \<Rightarrow>
               Inr (tx(nodeID \<mapsto> row\<lparr>AuditHistory := historyBytes\<rparr>), response)))"

subsection \<open>Status projection\<close>

definition getNodeStatus :: "Reputation \<Rightarrow> ReputationStatus" where
  "getNodeStatus dbNode =
     \<lparr>st_Contained = Contained dbNode,
      st_Disqualified = Disqualified dbNode,
      st_UnknownAuditSuspended = UnknownAuditSuspended dbNode,
      st_OfflineSuspended = OfflineSuspended dbNode,
      st_VettedAt = VettedAt dbNode\<rparr>"

text \<open>The zero value of \<open>overlay.ReputationStatus\<close>, which \<open>var oldStatus\<close> starts as.\<close>

definition zeroStatus :: ReputationStatus where
  "zeroStatus =
     \<lparr>st_Contained = False, st_Disqualified = None, st_UnknownAuditSuspended = None,
      st_OfflineSuspended = None, st_VettedAt = None\<rparr>"

text \<open>
  Modelled from the spec: \<open>overlay.ReputationStatus.Equal\<close> is not under src/; the spec
  has \<open>changed = (newStatus \<noteq> oldStatus)\<close> on the five projected fields.
\<close>

definition status_Equal :: "ReputationStatus \<Rightarrow> ReputationStatus \<Rightarrow> bool" where
  "status_Equal a b =
     (st_Contained a = st_Contained b \<and>
      st_Disqualified a = st_Disqualified b \<and>
      st_UnknownAuditSuspended a = st_UnknownAuditSuspended b \<and>
      st_OfflineSuspended a = st_OfflineSuspended b \<and>
      st_VettedAt a = st_VettedAt b)"

subsection \<open>\<open>Update\<close>\<close>

text \<open>
  The body of the transaction. It returns the table as the transaction sees it when the
  body is done, together with the two variables the closure assigns: \<open>dbNode\<close> (a
  pointer, so an \<open>option\<close>) and \<open>oldStatus\<close>.
\<close>

definition Update_tx ::
  "tracker \<Rightarrow> Time \<Rightarrow> store \<Rightarrow> UpdateRequest \<Rightarrow> Time \<Rightarrow>
   error + store \<times> Reputation option \<times> ReputationStatus" where
  "Update_tx record_audit clock tx updateReq now =
     (let nodeID = NodeID updateReq;
          found =
            (case Get_Reputation_By_Id tx nodeID of
               Inl ErrNoRows \<Rightarrow>
                 (case insertReputation tx nodeID emptyHistoryBytes of
                    Inl err \<Rightarrow> Inl err
                  | Inr tx1 \<Rightarrow>
                      (case Get_Reputation_By_Id tx1 nodeID of
                         Inl err \<Rightarrow> Inl err
                       | Inr dbNode \<Rightarrow> Inr (tx1, dbNode)))
             | Inl err \<Rightarrow> Inl err
             | Inr dbNode \<Rightarrow> Inr (tx, dbNode))
      in case found of
           Inl err \<Rightarrow> Inl err
         | Inr (tx1, dbNode) \<Rightarrow>
             if Disqualified dbNode \<noteq> None then Inr (tx1, Some dbNode, zeroStatus)
             else
               (let oldStatus =
                      \<lparr>st_Contained = Contained dbNode,
                       st_Disqualified = Disqualified dbNode,
                       st_UnknownAuditSuspended = UnknownAuditSuspended dbNode,
                       st_OfflineSuspended = OfflineSuspended dbNode,
                       st_VettedAt = VettedAt dbNode\<rparr>;
                    isUp = (AuditOutcome updateReq \<noteq> AuditOffline)
                in case updateAuditHistoryWithTx record_audit tx1 nodeID now isUp
                          (req_AuditHistory updateReq) of
                     Inl err \<Rightarrow> Inl err
                   | Inr (tx2, auditHistoryResponse) \<Rightarrow>
                       (let updateFields =
                              populateUpdateFields clock dbNode updateReq auditHistoryResponse now;
                            (dbNode', tx3) = Update_Reputation_By_Id tx2 nodeID updateFields
                        in Inr (tx3, dbNode', oldStatus))))"

text \<open>
  \<open>Update\<close>: the transaction commits when its body returns no error and is rolled back
  otherwise. The result is the error, or the status and the flag \<open>changed\<close>, paired with
  the table after the call.
\<close>

definition Update ::
  "tracker \<Rightarrow> Time \<Rightarrow> store \<Rightarrow> UpdateRequest \<Rightarrow> Time \<Rightarrow>
   (error + ReputationStatus \<times> bool) \<times> store" where
  "Update record_audit clock db updateReq now =
     (case Update_tx record_audit clock db updateReq now of
        Inl err \<Rightarrow> (Inl err, db)
      | Inr (db', None, oldStatus) \<Rightarrow> (Inl NilPointerDereference, db')
      | Inr (db', Some dbNode, oldStatus) \<Rightarrow>
          (let newStatus =
                 \<lparr>st_Contained = Contained dbNode,
                  st_Disqualified = Disqualified dbNode,
                  st_UnknownAuditSuspended = UnknownAuditSuspended dbNode,
                  st_OfflineSuspended = OfflineSuspended dbNode,
                  st_VettedAt = VettedAt dbNode\<rparr>
           in (Inr (getNodeStatus dbNode, \<not> status_Equal oldStatus newStatus), db')))"

subsection \<open>\<open>UnsuspendNodeUnknownAudit\<close>\<close>

definition UnsuspendNodeUnknownAudit :: "store \<Rightarrow> NodeID \<Rightarrow> error option \<times> store" where
  "UnsuspendNodeUnknownAudit db nodeID =
     (let body =
            (case Get_Reputation_By_Id db nodeID of
               Inl ErrNoRows \<Rightarrow> insertReputation db nodeID emptyHistoryBytes
             | Inl err \<Rightarrow> Inl err
             | Inr _ \<Rightarrow> Inr db)
      in case body of
           Inl err \<Rightarrow> (Some err, db)
         | Inr tx1 \<Rightarrow>
             (let updateFields = no_fields\<lparr>f_UnknownAuditSuspended := Null\<rparr>;
                  (_, tx2) = Update_Reputation_By_Id tx1 nodeID updateFields
              in (None, tx2)))"

subsection \<open>Notions used to state the properties\<close>

text \<open>
  The row a call works on: the stored one, or the one the lazy \<open>INSERT\<close> has just
  created.
\<close>

definition currentRow :: "store \<Rightarrow> NodeID \<Rightarrow> Reputation" where
  "currentRow db nodeID =
     (case db nodeID of Some row \<Rightarrow> row | None \<Rightarrow> insertedRow nodeID emptyHistoryBytes)"

text \<open>
  The row \<open>Update\<close> writes for a node that is not disqualified: the update fields applied
  to the row that already holds the tracker's new history.
\<close>

definition appliedRow ::
  "Time \<Rightarrow> Reputation \<Rightarrow> UpdateRequest \<Rightarrow> bytes \<Rightarrow> UpdateAuditHistoryResponse \<Rightarrow> Time \<Rightarrow>
   Reputation" where
  "appliedRow clock dbNode updateReq historyBytes auditHistoryResponse now =
     applyUpdate (populateUpdateFields clock dbNode updateReq auditHistoryResponse now)
       (dbNode\<lparr>AuditHistory := historyBytes\<rparr>)"

text \<open>
  The conditions of the \<open>if\<close> statements of \<open>populateUpdateNodeStats\<close>, by name:
  the audit score is at or below the threshold (case a); the unknown-audit score is at or
  below the threshold; the grace period of an earlier suspension has run out (case b);
  the node is to be penalized for being offline; the review window is over; the offline
  review disqualifies.
\<close>

definition auditDQFires :: "Reputation \<Rightarrow> UpdateRequest \<Rightarrow> bool" where
  "auditDQFires dbNode updateReq =
     (case switchOutcome dbNode updateReq of (auditAlpha, auditBeta, _) \<Rightarrow>
        float_le (float_div auditAlpha (auditAlpha + auditBeta)) (AuditDQ updateReq))"

definition unknownAuditLow :: "Reputation \<Rightarrow> UpdateRequest \<Rightarrow> bool" where
  "unknownAuditLow dbNode updateReq =
     (case switchOutcome dbNode updateReq of (_, _, unknownAuditAlpha, unknownAuditBeta, _) \<Rightarrow>
        float_le (float_div unknownAuditAlpha (unknownAuditAlpha + unknownAuditBeta))
          (AuditDQ updateReq))"

definition suspensionDQFires :: "Time \<Rightarrow> Reputation \<Rightarrow> UpdateRequest \<Rightarrow> bool" where
  "suspensionDQFires clock dbNode updateReq =
     (unknownAuditLow dbNode updateReq \<and> AuditOutcome updateReq \<noteq> AuditSuccess \<and>
      (case UnknownAuditSuspended dbNode of
         None \<Rightarrow> False
       | Some suspendedAt \<Rightarrow>
           time_Since clock suspendedAt > SuspensionGracePeriod updateReq \<and>
           SuspensionDQEnabled updateReq))"

definition penalizeOfflineNode :: "UpdateRequest \<Rightarrow> UpdateAuditHistoryResponse \<Rightarrow> bool" where
  "penalizeOfflineNode updateReq auditHistoryResponse =
     (NewScore auditHistoryResponse < OfflineThreshold (req_AuditHistory updateReq) \<and>
      TrackingPeriodFull auditHistoryResponse)"

definition trackingPeriodPassed :: "Reputation \<Rightarrow> UpdateRequest \<Rightarrow> Time \<Rightarrow> bool" where
  "trackingPeriodPassed dbNode updateReq now =
     (case UnderReview dbNode of
        None \<Rightarrow> False
      | Some underReview \<Rightarrow>
          time_After now
            (time_Add (time_Add underReview (GracePeriod (req_AuditHistory updateReq)))
               (TrackingPeriod (req_AuditHistory updateReq))))"

definition offlineDQFires ::
  "Reputation \<Rightarrow> UpdateRequest \<Rightarrow> UpdateAuditHistoryResponse \<Rightarrow> Time \<Rightarrow> bool" where
  "offlineDQFires dbNode updateReq auditHistoryResponse now =
     (OfflineSuspensionEnabled (req_AuditHistory updateReq) \<and>
      trackingPeriodPassed dbNode updateReq now \<and>
      penalizeOfflineNode updateReq auditHistoryResponse \<and>
      OfflineDQEnabled (req_AuditHistory updateReq))"

subsection \<open>Concrete nodes, rows and requests\<close>

definition exampleNode :: NodeID where
  "exampleNode = [1]"

definition hour :: Duration where
  "hour = 3600000000000"

text \<open>A tracker that reports a node online, and one that reports it offline for a full
  tracking period; neither rewrites the history.\<close>

definition steadyTracker :: tracker where
  "steadyTracker historyBytes now isUp cfg =
     Inr (historyBytes, \<lparr>NewScore = 1, TrackingPeriodFull = False\<rparr>)"

definition offlineTracker :: tracker where
  "offlineTracker historyBytes now isUp cfg =
     Inr (historyBytes, \<lparr>NewScore = 0, TrackingPeriodFull = True\<rparr>)"

definition exampleConfig :: AuditHistoryConfig where
  "exampleConfig =
     \<lparr>OfflineSuspensionEnabled = True, OfflineThreshold = 3 / 5, GracePeriod = hour,
      TrackingPeriod = hour, OfflineDQEnabled = False\<rparr>"

definition exampleRequest :: "AuditType \<Rightarrow> UpdateRequest" where
  "exampleRequest outcome =
     \<lparr>NodeID = exampleNode, AuditOutcome = outcome, AuditLambda = 1, AuditWeight = 1,
      AuditDQ = 3 / 5, AuditsRequiredForVetting = 1, SuspensionGracePeriod = 48 * hour,
      SuspensionDQEnabled = True, req_AuditHistory = exampleConfig\<rparr>"

text \<open>The fresh record of the spec's scenario A: alpha = beta = 1 on both tracks.\<close>

definition freshRow :: Reputation where
  "freshRow =
     \<lparr>Id = exampleNode, AuditSuccessCount = 0, TotalAuditCount = 0, VettedAt = None,
      Contained = False, Disqualified = None, Suspended = None,
      UnknownAuditSuspended = None, OfflineSuspended = None, UnderReview = None,
      OnlineScore = 1, AuditHistory = [],
      AuditReputationAlpha = 1, AuditReputationBeta = 1,
      UnknownAuditReputationAlpha = 1, UnknownAuditReputationBeta = 1\<rparr>"

text \<open>A node in good standing, a contained one, and a disqualified (and contained) one.\<close>

definition goodRow :: Reputation where
  "goodRow = freshRow\<lparr>AuditReputationAlpha := 20, UnknownAuditReputationAlpha := 20\<rparr>"

definition containedRow :: Reputation where
  "containedRow = goodRow\<lparr>Contained := True\<rparr>"

definition disqualifiedRow :: Reputation where
  "disqualifiedRow = freshRow\<lparr>Contained := True, Disqualified := Some 5\<rparr>"

text \<open>A node suspended for unknown audits at instant 0 whose unknown-audit score is 1/10.\<close>

definition suspendedRow :: Reputation where
  "suspendedRow =
     goodRow\<lparr>UnknownAuditReputationAlpha := 1, UnknownAuditReputationBeta := 9,
             UnknownAuditSuspended := Some 0\<rparr>"

text \<open>A node under offline review since instant 0, and the same with an audit score of 1/10.\<close>

definition reviewRow :: Reputation where
  "reviewRow = goodRow\<lparr>UnderReview := Some 0, OfflineSuspended := Some 0\<rparr>"

definition failingReviewRow :: Reputation where
  "failingReviewRow = reviewRow\<lparr>AuditReputationAlpha := 1, AuditReputationBeta := 9\<rparr>"

text \<open>A table holding one row for the example node, and the two trackers' responses.\<close>

definition storeOf :: "Reputation \<Rightarrow> store" where
  "storeOf row = Map.empty(exampleNode \<mapsto> row)"

definition onlineResponse :: UpdateAuditHistoryResponse where
  "onlineResponse = \<lparr>NewScore = 1, TrackingPeriodFull = False\<rparr>"

definition offlineResponse :: UpdateAuditHistoryResponse where
  "offlineResponse = \<lparr>NewScore = 0, TrackingPeriodFull = True\<rparr>"

section \<open>Properties\<close>

subsection \<open>The three ways \<open>Update\<close> ends\<close>

lemma Update_disqualified:
  assumes "db (NodeID updateReq) = Some row" "Disqualified row \<noteq> None"
  shows "Update record_audit clock db updateReq now = (Inr (getNodeStatus row, True), db)"
  using assms
  by (auto simp: Update_def Update_tx_def Get_Reputation_By_Id_def status_Equal_def
      zeroStatus_def Let_def)

lemma Update_tracker_error:
  assumes "Disqualified (currentRow db (NodeID updateReq)) = None"
    and "record_audit (AuditHistory (currentRow db (NodeID updateReq))) now
           (AuditOutcome updateReq \<noteq> AuditOffline) (req_AuditHistory updateReq) = Inl err"
  shows "Update record_audit clock db updateReq now = (Inl err, db)"
  using assms
  by (auto simp: Update_def Update_tx_def Get_Reputation_By_Id_def currentRow_def
      insertReputation_def updateAuditHistoryWithTx_def Let_def split: option.splits)

lemma Update_applied:
  assumes "Disqualified (currentRow db (NodeID updateReq)) = None"
    and "record_audit (AuditHistory (currentRow db (NodeID updateReq))) now
           (AuditOutcome updateReq \<noteq> AuditOffline) (req_AuditHistory updateReq) = Inr (h, resp)"
  shows "Update record_audit clock db updateReq now =
     (Inr (getNodeStatus (appliedRow clock (currentRow db (NodeID updateReq)) updateReq h resp now),
           getNodeStatus (appliedRow clock (currentRow db (NodeID updateReq)) updateReq h resp now)
             \<noteq> getNodeStatus (currentRow db (NodeID updateReq))),
      db(NodeID updateReq \<mapsto>
           appliedRow clock (currentRow db (NodeID updateReq)) updateReq h resp now))"
  using assms
  apply (cases "db (NodeID updateReq)")
   apply (simp_all add: Update_def Update_tx_def Get_Reputation_By_Id_def currentRow_def
      insertReputation_def updateAuditHistoryWithTx_def Update_Reputation_By_Id_def Let_def
      status_Equal_def getNodeStatus_def appliedRow_def)
   apply auto
  done

text \<open>A call that succeeds on a node that is not disqualified has written \<open>appliedRow\<close>.\<close>

lemma Update_success:
  assumes ok: "Update record_audit clock db updateReq now = (Inr result, db')"
    and nd: "Disqualified (currentRow db (NodeID updateReq)) = None"
  shows "\<exists>h resp.
           record_audit (AuditHistory (currentRow db (NodeID updateReq))) now
             (AuditOutcome updateReq \<noteq> AuditOffline) (req_AuditHistory updateReq) = Inr (h, resp) \<and>
           db' = db(NodeID updateReq \<mapsto>
                   appliedRow clock (currentRow db (NodeID updateReq)) updateReq h resp now) \<and>
           result =
             (getNodeStatus (appliedRow clock (currentRow db (NodeID updateReq)) updateReq h resp now),
              getNodeStatus (appliedRow clock (currentRow db (NodeID updateReq)) updateReq h resp now)
                \<noteq> getNodeStatus (currentRow db (NodeID updateReq)))"
proof (cases "record_audit (AuditHistory (currentRow db (NodeID updateReq))) now
                (AuditOutcome updateReq \<noteq> AuditOffline) (req_AuditHistory updateReq)")
  case (Inl err)
  have "Update record_audit clock db updateReq now = (Inl err, db)"
    using nd Inl by (rule Update_tracker_error)
  with ok show ?thesis by simp
next
  case (Inr p)
  obtain h resp where p: "p = (h, resp)" by (cases p)
  have tr: "record_audit (AuditHistory (currentRow db (NodeID updateReq))) now
              (AuditOutcome updateReq \<noteq> AuditOffline) (req_AuditHistory updateReq) = Inr (h, resp)"
    using Inr p by simp
  have "Update record_audit clock db updateReq now =
     (Inr (getNodeStatus (appliedRow clock (currentRow db (NodeID updateReq)) updateReq h resp now),
           getNodeStatus (appliedRow clock (currentRow db (NodeID updateReq)) updateReq h resp now)
             \<noteq> getNodeStatus (currentRow db (NodeID updateReq))),
      db(NodeID updateReq \<mapsto>
           appliedRow clock (currentRow db (NodeID updateReq)) updateReq h resp now))"
    using nd tr by (rule Update_applied)
  with ok tr show ?thesis by auto
qed

subsection \<open>What each block of \<open>populateUpdateNodeStats\<close> leaves alone\<close>

lemma switchOutcome_count:
  "switchOutcome dbNode updateReq = (a, b, ua, ub, n) \<Longrightarrow> n = TotalAuditCount dbNode + 1"
  by (cases "AuditOutcome updateReq") (auto simp: switchOutcome_def updateReputation_def Let_def)

lemma vettingBlock_frame:
  "u_TotalAuditCount (vettingBlock d r n c u) = u_TotalAuditCount u"
  "u_AuditReputationAlpha (vettingBlock d r n c u) = u_AuditReputationAlpha u"
  "u_AuditReputationBeta (vettingBlock d r n c u) = u_AuditReputationBeta u"
  "u_Disqualified (vettingBlock d r n c u) = u_Disqualified u"
  "u_UnknownAuditReputationAlpha (vettingBlock d r n c u) = u_UnknownAuditReputationAlpha u"
  "u_UnknownAuditReputationBeta (vettingBlock d r n c u) = u_UnknownAuditReputationBeta u"
  "u_UnknownAuditSuspended (vettingBlock d r n c u) = u_UnknownAuditSuspended u"
  "u_AuditSuccessCount (vettingBlock d r n c u) = u_AuditSuccessCount u"
  "u_Contained (vettingBlock d r n c u) = u_Contained u"
  "u_OfflineUnderReview (vettingBlock d r n c u) = u_OfflineUnderReview u"
  "u_OfflineSuspended (vettingBlock d r n c u) = u_OfflineSuspended u"
  "u_OnlineScore (vettingBlock d r n c u) = u_OnlineScore u"
  by (simp_all add: vettingBlock_def)

lemma auditDQBlock_frame:
  "u_VettedAt (auditDQBlock r n a b u) = u_VettedAt u"
  "u_TotalAuditCount (auditDQBlock r n a b u) = u_TotalAuditCount u"
  "u_AuditReputationAlpha (auditDQBlock r n a b u) = u_AuditReputationAlpha u"
  "u_AuditReputationBeta (auditDQBlock r n a b u) = u_AuditReputationBeta u"
  "u_UnknownAuditReputationAlpha (auditDQBlock r n a b u) = u_UnknownAuditReputationAlpha u"
  "u_UnknownAuditReputationBeta (auditDQBlock r n a b u) = u_UnknownAuditReputationBeta u"
  "u_UnknownAuditSuspended (auditDQBlock r n a b u) = u_UnknownAuditSuspended u"
  "u_AuditSuccessCount (auditDQBlock r n a b u) = u_AuditSuccessCount u"
  "u_Contained (auditDQBlock r n a b u) = u_Contained u"
  "u_OfflineUnderReview (auditDQBlock r n a b u) = u_OfflineUnderReview u"
  "u_OfflineSuspended (auditDQBlock r n a b u) = u_OfflineSuspended u"
  "u_OnlineScore (auditDQBlock r n a b u) = u_OnlineScore u"
  by (simp_all add: auditDQBlock_def Let_def)

lemma unknownAuditBlock_frame:
  "u_VettedAt (unknownAuditBlock c d r n a b u) = u_VettedAt u"
  "u_TotalAuditCount (unknownAuditBlock c d r n a b u) = u_TotalAuditCount u"
  "u_AuditReputationAlpha (unknownAuditBlock c d r n a b u) = u_AuditReputationAlpha u"
  "u_AuditReputationBeta (unknownAuditBlock c d r n a b u) = u_AuditReputationBeta u"
  "u_UnknownAuditReputationAlpha (unknownAuditBlock c d r n a b u) = u_UnknownAuditReputationAlpha u"
  "u_UnknownAuditReputationBeta (unknownAuditBlock c d r n a b u) = u_UnknownAuditReputationBeta u"
  "u_AuditSuccessCount (unknownAuditBlock c d r n a b u) = u_AuditSuccessCount u"
  "u_Contained (unknownAuditBlock c d r n a b u) = u_Contained u"
  "u_OfflineUnderReview (unknownAuditBlock c d r n a b u) = u_OfflineUnderReview u"
  "u_OfflineSuspended (unknownAuditBlock c d r n a b u) = u_OfflineSuspended u"
  "u_OnlineScore (unknownAuditBlock c d r n a b u) = u_OnlineScore u"
  by (simp_all add: unknownAuditBlock_def Let_def)

lemma contactBlock_frame:
  "u_VettedAt (contactBlock i n u) = u_VettedAt u"
  "u_TotalAuditCount (contactBlock i n u) = u_TotalAuditCount u"
  "u_AuditReputationAlpha (contactBlock i n u) = u_AuditReputationAlpha u"
  "u_AuditReputationBeta (contactBlock i n u) = u_AuditReputationBeta u"
  "u_Disqualified (contactBlock i n u) = u_Disqualified u"
  "u_UnknownAuditReputationAlpha (contactBlock i n u) = u_UnknownAuditReputationAlpha u"
  "u_UnknownAuditReputationBeta (contactBlock i n u) = u_UnknownAuditReputationBeta u"
  "u_UnknownAuditSuspended (contactBlock i n u) = u_UnknownAuditSuspended u"
  "u_AuditSuccessCount (contactBlock i n u) = u_AuditSuccessCount u"
  "u_Contained (contactBlock i n u) = u_Contained u"
  "u_OfflineUnderReview (contactBlock i n u) = u_OfflineUnderReview u"
  "u_OfflineSuspended (contactBlock i n u) = u_OfflineSuspended u"
  "u_OnlineScore (contactBlock i n u) = u_OnlineScore u"
  by (simp_all add: contactBlock_def)

lemma successCountBlock_frame:
  "u_VettedAt (successCountBlock d r u) = u_VettedAt u"
  "u_TotalAuditCount (successCountBlock d r u) = u_TotalAuditCount u"
  "u_AuditReputationAlpha (successCountBlock d r u) = u_AuditReputationAlpha u"
  "u_AuditReputationBeta (successCountBlock d r u) = u_AuditReputationBeta u"
  "u_Disqualified (successCountBlock d r u) = u_Disqualified u"
  "u_UnknownAuditReputationAlpha (successCountBlock d r u) = u_UnknownAuditReputationAlpha u"
  "u_UnknownAuditReputationBeta (successCountBlock d r u) = u_UnknownAuditReputationBeta u"
  "u_UnknownAuditSuspended (successCountBlock d r u) = u_UnknownAuditSuspended u"
  "u_Contained (successCountBlock d r u) = u_Contained u"
  "u_OfflineUnderReview (successCountBlock d r u) = u_OfflineUnderReview u"
  "u_OfflineSuspended (successCountBlock d r u) = u_OfflineSuspended u"
  "u_OnlineScore (successCountBlock d r u) = u_OnlineScore u"
  by (simp_all add: successCountBlock_def)

lemma offlineBlock_frame:
  "u_VettedAt (offlineBlock d r h n u) = u_VettedAt u"
  "u_TotalAuditCount (offlineBlock d r h n u) = u_TotalAuditCount u"
  "u_AuditReputationAlpha (offlineBlock d r h n u) = u_AuditReputationAlpha u"
  "u_AuditReputationBeta (offlineBlock d r h n u) = u_AuditReputationBeta u"
  "u_UnknownAuditReputationAlpha (offlineBlock d r h n u) = u_UnknownAuditReputationAlpha u"
  "u_UnknownAuditReputationBeta (offlineBlock d r h n u) = u_UnknownAuditReputationBeta u"
  "u_UnknownAuditSuspended (offlineBlock d r h n u) = u_UnknownAuditSuspended u"
  "u_AuditSuccessCount (offlineBlock d r h n u) = u_AuditSuccessCount u"
  "u_Contained (offlineBlock d r h n u) = u_Contained u"
  "u_OnlineScore (offlineBlock d r h n u) = u_OnlineScore u"
  by (simp_all add: offlineBlock_def Let_def split: option.splits)

lemmas frame = vettingBlock_frame auditDQBlock_frame unknownAuditBlock_frame contactBlock_frame
  successCountBlock_frame offlineBlock_frame

lemma stats_Contained:
  "u_Contained (populateUpdateNodeStats clock dbNode updateReq resp now) = \<lparr>is_set = True, val = False\<rparr>"
  by (simp add: populateUpdateNodeStats_def frame initialFields_def Let_def split: prod.splits)

lemma stats_TotalAuditCount:
  "u_TotalAuditCount (populateUpdateNodeStats clock dbNode updateReq resp now) =
     \<lparr>is_set = True, val = TotalAuditCount dbNode + 1\<rparr>"
  by (auto simp: populateUpdateNodeStats_def frame initialFields_def Let_def split: prod.splits
      dest: switchOutcome_count)

lemma stats_VettedAt:
  "u_VettedAt (populateUpdateNodeStats clock dbNode updateReq resp now) =
     (if VettedAt dbNode = None \<and> word_sle (AuditsRequiredForVetting updateReq) (TotalAuditCount dbNode + 1)
      then setTime now else unsetTime)"
  by (auto simp: populateUpdateNodeStats_def frame initialFields_def vettingBlock_def Let_def split: prod.splits
      dest: switchOutcome_count)



lemma appliedRow_Contained:
  "Contained (appliedRow clock dbNode updateReq h resp now) = False"
  by (simp add: appliedRow_def applyUpdate_def populateUpdateFields_def Let_def stats_Contained
      valueOf_def setColumn_def)

lemma appliedRow_TotalAuditCount:
  "TotalAuditCount (appliedRow clock dbNode updateReq h resp now) = TotalAuditCount dbNode + 1"
  by (simp add: appliedRow_def applyUpdate_def populateUpdateFields_def Let_def stats_TotalAuditCount
      valueOf_def setColumn_def)

lemma appliedRow_VettedAt:
  "VettedAt (appliedRow clock dbNode updateReq h resp now) =
     (if VettedAt dbNode = None \<and>
         word_sle (AuditsRequiredForVetting updateReq) (TotalAuditCount dbNode + 1)
      then Some now else VettedAt dbNode)"
  by (simp add: appliedRow_def applyUpdate_def populateUpdateFields_def Let_def stats_VettedAt
      timeValueOf_def setNullable_def setTime_def unsetTime_def)





subsection \<open>Disqualification, suspension and review in terms of the named conditions\<close>

lemma auditDQBlock_Disqualified:
  "u_Disqualified (auditDQBlock r n a b u) =
     (if float_le (float_div a (a + b)) (AuditDQ r) then setTime n else u_Disqualified u)"
  by (simp add: auditDQBlock_def Let_def)

lemma unknownAuditBlock_Disqualified:
  "u_UnknownAuditSuspended u = unsetTime \<Longrightarrow>
   u_Disqualified (unknownAuditBlock c d r n a b u) =
     (if float_le (float_div a (a + b)) (AuditDQ r) \<and> AuditOutcome r \<noteq> AuditSuccess \<and>
         (case UnknownAuditSuspended d of None \<Rightarrow> False
          | Some s \<Rightarrow> time_Since c s > SuspensionGracePeriod r \<and> SuspensionDQEnabled r)
      then setTime n else u_Disqualified u)"
  by (auto simp: unknownAuditBlock_def Let_def unsetTime_def split: option.splits)

lemma unknownAuditBlock_UnknownAuditSuspended:
  "u_UnknownAuditSuspended u = unsetTime \<Longrightarrow>
   u_UnknownAuditSuspended (unknownAuditBlock c d r n a b u) =
     (if float_le (float_div a (a + b)) (AuditDQ r) then
        (case UnknownAuditSuspended d of
           None \<Rightarrow> setTime n
         | Some s \<Rightarrow>
             if AuditOutcome r \<noteq> AuditSuccess \<and> time_Since c s > SuspensionGracePeriod r \<and>
                SuspensionDQEnabled r
             then setNil else unsetTime)
      else (case UnknownAuditSuspended d of None \<Rightarrow> unsetTime | Some s \<Rightarrow> setNil))"
  by (auto simp: unknownAuditBlock_def Let_def unsetTime_def setTime_def split: option.splits)

lemma offlineBlock_Disqualified:
  "u_Disqualified (offlineBlock d r h n u) =
     (if offlineDQFires d r h n then setTime n else u_Disqualified u)"
  by (auto simp: offlineBlock_def offlineDQFires_def trackingPeriodPassed_def penalizeOfflineNode_def
      Let_def split: option.splits)



lemma stats_Disqualified:
  "u_Disqualified (populateUpdateNodeStats clock dbNode updateReq resp now) =
     (if auditDQFires dbNode updateReq \<or> suspensionDQFires clock dbNode updateReq \<or>
         offlineDQFires dbNode updateReq resp now
      then setTime now else unsetTime)"
  by (simp add: populateUpdateNodeStats_def frame initialFields_def Let_def
      auditDQBlock_Disqualified unknownAuditBlock_Disqualified offlineBlock_Disqualified
      auditDQFires_def suspensionDQFires_def unknownAuditLow_def split: prod.splits)

lemma stats_UnknownAuditSuspended:
  "u_UnknownAuditSuspended (populateUpdateNodeStats clock dbNode updateReq resp now) =
     (if unknownAuditLow dbNode updateReq then
        (case UnknownAuditSuspended dbNode of
           None \<Rightarrow> setTime now
         | Some s \<Rightarrow> if suspensionDQFires clock dbNode updateReq then setNil else unsetTime)
      else (case UnknownAuditSuspended dbNode of None \<Rightarrow> unsetTime | Some s \<Rightarrow> setNil))"
  by (simp add: populateUpdateNodeStats_def frame initialFields_def Let_def
      unknownAuditBlock_UnknownAuditSuspended
      suspensionDQFires_def unknownAuditLow_def split: prod.splits option.splits)



lemma appliedRow_Disqualified:
  "Disqualified dbNode = None \<Longrightarrow>
   Disqualified (appliedRow clock dbNode updateReq h resp now) =
     (if auditDQFires dbNode updateReq \<or> suspensionDQFires clock dbNode updateReq \<or>
         offlineDQFires dbNode updateReq resp now
      then Some now else None)"
  by (simp add: appliedRow_def applyUpdate_def populateUpdateFields_def Let_def stats_Disqualified
      timeValueOf_def setNullable_def setTime_def unsetTime_def)

lemma appliedRow_UnknownAuditSuspended:
  "UnknownAuditSuspended (appliedRow clock dbNode updateReq h resp now) =
     (if unknownAuditLow dbNode updateReq then
        (case UnknownAuditSuspended dbNode of
           None \<Rightarrow> Some now
         | Some s \<Rightarrow> if suspensionDQFires clock dbNode updateReq then None else Some s)
      else None)"
  by (simp add: appliedRow_def applyUpdate_def populateUpdateFields_def Let_def
      stats_UnknownAuditSuspended timeOrNullOf_def setNullable_def setTime_def unsetTime_def
      setNil_def split: option.splits)



subsection \<open>Runs on the concrete rows\<close>

lemmas example_defs = storeOf_def exampleNode_def exampleRequest_def exampleConfig_def
  freshRow_def goodRow_def containedRow_def disqualifiedRow_def suspendedRow_def reviewRow_def
  failingReviewRow_def steadyTracker_def offlineTracker_def hour_def currentRow_def
  insertedRow_def emptyHistoryBytes_def onlineResponse_def offlineResponse_def

lemmas code_defs = appliedRow_def applyUpdate_def populateUpdateFields_def
  populateUpdateNodeStats_def switchOutcome_def updateReputation_def initialFields_def
  vettingBlock_def auditDQBlock_def unknownAuditBlock_def contactBlock_def successCountBlock_def
  offlineBlock_def float_div_def valueOf_def timeValueOf_def timeOrNullOf_def setColumn_def
  setNullable_def setTime_def unsetTime_def setNil_def unsetVal_def word_sle_eq Let_def
  time_Since_def time_Sub_def time_Add_def time_After_def maxDuration_def minDuration_def
  getNodeStatus_def

lemma currentRow_disqualified:
  "Disqualified (currentRow db nodeID) \<noteq> None \<Longrightarrow> db nodeID = Some (currentRow db nodeID)"
  by (auto simp: currentRow_def insertedRow_def split: option.splits)

lemma run_example:
  assumes nd: "Disqualified row = None"
    and tr: "record_audit (AuditHistory row) now (outcome \<noteq> AuditOffline) exampleConfig = Inr (h, resp)"
  shows "Update record_audit clock (storeOf row) (exampleRequest outcome) now =
     (Inr (getNodeStatus (appliedRow clock row (exampleRequest outcome) h resp now),
           getNodeStatus (appliedRow clock row (exampleRequest outcome) h resp now) \<noteq> getNodeStatus row),
      storeOf (appliedRow clock row (exampleRequest outcome) h resp now))"
proof -
  have id: "NodeID (exampleRequest outcome) = exampleNode"
    by (simp add: exampleRequest_def)
  have cur: "currentRow (storeOf row) (NodeID (exampleRequest outcome)) = row"
    by (simp add: id currentRow_def storeOf_def)
  have h1: "Disqualified (currentRow (storeOf row) (NodeID (exampleRequest outcome))) = None"
    by (simp only: cur nd)
  have h2: "record_audit (AuditHistory (currentRow (storeOf row) (NodeID (exampleRequest outcome))))
              now (AuditOutcome (exampleRequest outcome) \<noteq> AuditOffline)
              (req_AuditHistory (exampleRequest outcome)) = Inr (h, resp)"
    unfolding cur using tr by (simp add: exampleRequest_def)
  have "Update record_audit clock (storeOf row) (exampleRequest outcome) now =
     (Inr (getNodeStatus (appliedRow clock (currentRow (storeOf row) (NodeID (exampleRequest outcome)))
              (exampleRequest outcome) h resp now),
           getNodeStatus (appliedRow clock (currentRow (storeOf row) (NodeID (exampleRequest outcome)))
              (exampleRequest outcome) h resp now)
             \<noteq> getNodeStatus (currentRow (storeOf row) (NodeID (exampleRequest outcome)))),
      (storeOf row)(NodeID (exampleRequest outcome) \<mapsto>
           appliedRow clock (currentRow (storeOf row) (NodeID (exampleRequest outcome)))
              (exampleRequest outcome) h resp now))"
    using h1 h2 by (rule Update_applied)
  then show ?thesis
    unfolding cur by (simp add: id storeOf_def)
qed

lemma run_disqualified:
  "Update steadyTracker 0 (storeOf disqualifiedRow) (exampleRequest AuditSuccess) 7 =
     (Inr (getNodeStatus disqualifiedRow, True), storeOf disqualifiedRow)"
  by (rule Update_disqualified) (simp_all add: example_defs)

lemma run_fresh_success:
  "Update steadyTracker 0 (storeOf freshRow) (exampleRequest AuditSuccess) 7 =
     (Inr (\<lparr>st_Contained = False, st_Disqualified = None, st_UnknownAuditSuspended = None,
            st_OfflineSuspended = None, st_VettedAt = Some 7\<rparr>, True),
      storeOf (freshRow\<lparr>AuditSuccessCount := 1, TotalAuditCount := 1, VettedAt := Some 7,
                 AuditReputationAlpha := 2, UnknownAuditReputationAlpha := 2\<rparr>))"
proof -
  have row: "appliedRow 0 freshRow (exampleRequest AuditSuccess) [] onlineResponse 7 =
      freshRow\<lparr>AuditSuccessCount := 1, TotalAuditCount := 1, VettedAt := Some 7,
        AuditReputationAlpha := 2, UnknownAuditReputationAlpha := 2\<rparr>"
    by (simp add: example_defs code_defs)
  have "Update steadyTracker 0 (storeOf freshRow) (exampleRequest AuditSuccess) 7 =
     (Inr (getNodeStatus (appliedRow 0 freshRow (exampleRequest AuditSuccess) [] onlineResponse 7),
           getNodeStatus (appliedRow 0 freshRow (exampleRequest AuditSuccess) [] onlineResponse 7)
             \<noteq> getNodeStatus freshRow),
      storeOf (appliedRow 0 freshRow (exampleRequest AuditSuccess) [] onlineResponse 7))"
    by (rule run_example) (simp_all add: example_defs)
  then show ?thesis
    by (simp add: row) (simp add: getNodeStatus_def freshRow_def)
qed

lemma run_contained_success:
  "Update steadyTracker 0 (storeOf containedRow) (exampleRequest AuditSuccess) 7 =
     (Inr (\<lparr>st_Contained = False, st_Disqualified = None, st_UnknownAuditSuspended = None,
            st_OfflineSuspended = None, st_VettedAt = Some 7\<rparr>, True),
      storeOf (goodRow\<lparr>AuditSuccessCount := 1, TotalAuditCount := 1, VettedAt := Some 7,
                 AuditReputationAlpha := 21, UnknownAuditReputationAlpha := 21\<rparr>))"
proof -
  have row: "appliedRow 0 containedRow (exampleRequest AuditSuccess) [] onlineResponse 7 =
      goodRow\<lparr>AuditSuccessCount := 1, TotalAuditCount := 1, VettedAt := Some 7,
        AuditReputationAlpha := 21, UnknownAuditReputationAlpha := 21\<rparr>"
    by (simp add: example_defs code_defs)
  have "Update steadyTracker 0 (storeOf containedRow) (exampleRequest AuditSuccess) 7 =
     (Inr (getNodeStatus (appliedRow 0 containedRow (exampleRequest AuditSuccess) [] onlineResponse 7),
           getNodeStatus (appliedRow 0 containedRow (exampleRequest AuditSuccess) [] onlineResponse 7)
             \<noteq> getNodeStatus containedRow),
      storeOf (appliedRow 0 containedRow (exampleRequest AuditSuccess) [] onlineResponse 7))"
    by (rule run_example) (simp_all add: example_defs)
  then show ?thesis
    by (simp add: row) (simp add: getNodeStatus_def containedRow_def goodRow_def freshRow_def)
qed


lemma run_suspended_failure:
  "Update steadyTracker hour (storeOf suspendedRow) (exampleRequest AuditFailure) (100 * hour) =
     (Inr (\<lparr>st_Contained = False, st_Disqualified = None, st_UnknownAuditSuspended = Some 0,
            st_OfflineSuspended = None, st_VettedAt = Some (100 * hour)\<rparr>, True),
      storeOf (suspendedRow\<lparr>TotalAuditCount := 1, VettedAt := Some (100 * hour),
                 AuditReputationBeta := 2\<rparr>))"
proof -
  have row: "appliedRow hour suspendedRow (exampleRequest AuditFailure) [] onlineResponse (100 * hour) =
      suspendedRow\<lparr>TotalAuditCount := 1, VettedAt := Some (100 * hour), AuditReputationBeta := 2\<rparr>"
    by (simp add: example_defs code_defs)
  have "Update steadyTracker hour (storeOf suspendedRow) (exampleRequest AuditFailure) (100 * hour) =
     (Inr (getNodeStatus (appliedRow hour suspendedRow (exampleRequest AuditFailure) [] onlineResponse (100 * hour)),
           getNodeStatus (appliedRow hour suspendedRow (exampleRequest AuditFailure) [] onlineResponse (100 * hour))
             \<noteq> getNodeStatus suspendedRow),
      storeOf (appliedRow hour suspendedRow (exampleRequest AuditFailure) [] onlineResponse (100 * hour)))"
    by (rule run_example) (simp_all add: example_defs)
  then show ?thesis
    by (simp add: row) (simp add: getNodeStatus_def suspendedRow_def goodRow_def freshRow_def)
qed




section \<open>The specified properties\<close>

text \<open>
  C1. A call of \<open>Update\<close> on a record whose \<open>disqualified\<close> timestamp is set succeeds
  and writes nothing: the table after the call is the table before it, so every field of
  the record is as it was, and the status returned is the projection of that same row.
\<close>

theorem Update_disqualified_noop:
  assumes "db (NodeID updateReq) = Some row" and "Disqualified row \<noteq> None"
  shows "\<exists>changed. Update record_audit clock db updateReq now =
           (Inr (getNodeStatus row, changed), db)"
  using assms by (auto simp: Update_disqualified)

theorem Update_disqualified_noop_witness:
  "storeOf disqualifiedRow (NodeID (exampleRequest AuditSuccess)) = Some disqualifiedRow \<and>
   Disqualified disqualifiedRow \<noteq> None \<and>
   (\<exists>changed. Update steadyTracker 0 (storeOf disqualifiedRow) (exampleRequest AuditSuccess) 7 =
      (Inr (getNodeStatus disqualifiedRow, changed), storeOf disqualifiedRow))"
  using Update_disqualified_noop [where db = "storeOf disqualifiedRow"
      and updateReq = "exampleRequest AuditSuccess" and row = disqualifiedRow
      and record_audit = steadyTracker and clock = 0 and now = 7]
  by (simp add: example_defs)







text \<open>
  C4. The flag \<open>changed\<close> is computed as "new status differs from \<open>oldStatus\<close>", but on
  a record that is already disqualified the transaction body returns before \<open>oldStatus\<close>
  is assigned. The comparison is then made against the zero value of the status type, and
  the call reports a change although the projected status is what it was.
\<close>

theorem Update_disqualified_reports_changed:
  "storeOf disqualifiedRow exampleNode = Some disqualifiedRow \<and>
   Update steadyTracker 0 (storeOf disqualifiedRow) (exampleRequest AuditSuccess) 7 =
     (Inr (getNodeStatus disqualifiedRow, True), storeOf disqualifiedRow) \<and>
   getNodeStatus disqualifiedRow =
     \<lparr>st_Contained = True, st_Disqualified = Some 5, st_UnknownAuditSuspended = None,
      st_OfflineSuspended = None, st_VettedAt = None\<rparr>"
  using run_disqualified by (simp add: example_defs getNodeStatus_def)

text \<open>
  C5. The grace period of an unknown-audit suspension is measured with \<open>time.Since\<close>,
  that is from the wall clock, and not from the argument \<open>now\<close> that every other test of
  the function uses. Here the node was suspended at instant 0, \<open>now\<close> is 100 hours and the
  grace period 48 hours, but the wall clock reads 1 hour: every condition of the claim
  holds, and the node is neither disqualified nor released from suspension.
\<close>

theorem Update_grace_period_uses_wall_clock:
  "Disqualified suspendedRow = None \<and>
   UnknownAuditSuspended suspendedRow = Some 0 \<and>
   unknownAuditLow suspendedRow (exampleRequest AuditFailure) \<and>
   AuditOutcome (exampleRequest AuditFailure) \<noteq> AuditSuccess \<and>
   SuspensionGracePeriod (exampleRequest AuditFailure) < 100 * hour - 0 \<and>
   SuspensionDQEnabled (exampleRequest AuditFailure) \<and>
   fst (Update steadyTracker hour (storeOf suspendedRow) (exampleRequest AuditFailure) (100 * hour)) =
     Inr (\<lparr>st_Contained = False, st_Disqualified = None, st_UnknownAuditSuspended = Some 0,
           st_OfflineSuspended = None, st_VettedAt = Some (100 * hour)\<rparr>, True) \<and>
   map_option Disqualified
     (snd (Update steadyTracker hour (storeOf suspendedRow) (exampleRequest AuditFailure) (100 * hour))
        exampleNode) = Some None \<and>
   map_option UnknownAuditSuspended
     (snd (Update steadyTracker hour (storeOf suspendedRow) (exampleRequest AuditFailure) (100 * hour))
        exampleNode) = Some (Some 0)"
  by (simp add: run_suspended_failure)
     (simp add: example_defs unknownAuditLow_def switchOutcome_def updateReputation_def
        float_div_def)

text \<open>
  What the code does decide by: with the wall clock in the place of \<open>now\<close>, the same
  conditions do disqualify and lift the suspension.
\<close>

lemma Update_grace_period_by_clock:
  assumes "Disqualified (currentRow db (NodeID updateReq)) = None"
    and "unknownAuditLow (currentRow db (NodeID updateReq)) updateReq"
    and "AuditOutcome updateReq \<noteq> AuditSuccess"
    and "UnknownAuditSuspended (currentRow db (NodeID updateReq)) = Some suspendedAt"
    and "SuspensionGracePeriod updateReq < time_Since clock suspendedAt"
    and "SuspensionDQEnabled updateReq"
    and "Update record_audit clock db updateReq now = (Inr result, db')"
  shows "\<exists>row'. db' (NodeID updateReq) = Some row' \<and>
           Disqualified row' = Some now \<and> UnknownAuditSuspended row' = None"
proof -
  from Update_success [OF assms(7) assms(1)] obtain h resp where
    row: "db' (NodeID updateReq) =
            Some (appliedRow clock (currentRow db (NodeID updateReq)) updateReq h resp now)"
    by auto
  have "suspensionDQFires clock (currentRow db (NodeID updateReq)) updateReq"
    using assms(2-6) by (simp add: suspensionDQFires_def)
  with row assms(1,2,4) show ?thesis
    by (simp add: appliedRow_Disqualified appliedRow_UnknownAuditSuspended)
qed

text \<open>
  The two readings agree whenever the wall clock is not behind \<open>now\<close> (and the grace
  period is not the largest Duration, where \<open>Sub\<close> saturates).
\<close>

lemma time_Since_not_behind:
  assumes "now \<le> clock" and "grace < now - suspendedAt" and "grace < maxDuration"
  shows "grace < time_Since clock suspendedAt"
  using assms by (simp add: time_Since_def time_Sub_def Let_def)

lemma Update_grace_period_clock_not_behind:
  assumes "Disqualified (currentRow db (NodeID updateReq)) = None"
    and "unknownAuditLow (currentRow db (NodeID updateReq)) updateReq"
    and "AuditOutcome updateReq \<noteq> AuditSuccess"
    and "UnknownAuditSuspended (currentRow db (NodeID updateReq)) = Some suspendedAt"
    and "SuspensionGracePeriod updateReq < now - suspendedAt"
    and "SuspensionDQEnabled updateReq"
    and "Update record_audit clock db updateReq now = (Inr result, db')"
    and "now \<le> clock" and "SuspensionGracePeriod updateReq < maxDuration"
  shows "\<exists>row'. db' (NodeID updateReq) = Some row' \<and>
           Disqualified row' = Some now \<and> UnknownAuditSuspended row' = None"
  using assms(1-4) time_Since_not_behind [OF assms(8) assms(5) assms(9)] assms(6,7)
  by (rule Update_grace_period_by_clock)

text \<open>
  C6, as stated, fails: a record that is disqualified and contained is still contained
  after a successful call.
\<close>

theorem Update_clears_contained_counterexample:
  "Contained disqualifiedRow \<and>
   fst (Update steadyTracker 0 (storeOf disqualifiedRow) (exampleRequest AuditSuccess) 7) =
     Inr (getNodeStatus disqualifiedRow, True) \<and>
   st_Contained (getNodeStatus disqualifiedRow) \<and>
   map_option Contained
     (snd (Update steadyTracker 0 (storeOf disqualifiedRow) (exampleRequest AuditSuccess) 7)
        exampleNode) = Some True"
  by (simp add: run_disqualified) (simp add: example_defs getNodeStatus_def)

text \<open>
  C6, amended. After a successful call on a record that was not already disqualified,
  \<open>contained\<close> is false in the record and in the returned status, whatever the outcome
  and whatever was decided about suspension or disqualification; on a record that was
  already disqualified the call leaves \<open>contained\<close> as it was.
\<close>

theorem Update_clears_contained:
  assumes ok: "Update record_audit clock db updateReq now = (Inr result, db')"
  shows "\<exists>row'. db' (NodeID updateReq) = Some row' \<and>
           st_Contained (fst result) = Contained row' \<and>
           Contained row' =
             (if Disqualified (currentRow db (NodeID updateReq)) = None then False
              else Contained (currentRow db (NodeID updateReq)))"
proof (cases "Disqualified (currentRow db (NodeID updateReq)) = None")
  case True
  from Update_success [OF ok True] obtain h resp where
    "db' (NodeID updateReq) =
       Some (appliedRow clock (currentRow db (NodeID updateReq)) updateReq h resp now)"
    "result =
       (getNodeStatus (appliedRow clock (currentRow db (NodeID updateReq)) updateReq h resp now),
        getNodeStatus (appliedRow clock (currentRow db (NodeID updateReq)) updateReq h resp now)
          \<noteq> getNodeStatus (currentRow db (NodeID updateReq)))"
    by auto
  with True show ?thesis
    by (simp add: appliedRow_Contained getNodeStatus_def)
next
  case False
  then have stored: "db (NodeID updateReq) = Some (currentRow db (NodeID updateReq))"
    by (rule currentRow_disqualified)
  have "Update record_audit clock db updateReq now =
          (Inr (getNodeStatus (currentRow db (NodeID updateReq)), True), db)"
    using stored False by (rule Update_disqualified)
  with ok have "db' = db" "result = (getNodeStatus (currentRow db (NodeID updateReq)), True)"
    by auto
  with stored False show ?thesis by (auto simp: getNodeStatus_def)
qed

theorem Update_clears_contained_witness:
  "Contained containedRow \<and>
   Disqualified (currentRow (storeOf containedRow) (NodeID (exampleRequest AuditSuccess))) = None \<and>
   fst (Update steadyTracker 0 (storeOf containedRow) (exampleRequest AuditSuccess) 7) =
     Inr (\<lparr>st_Contained = False, st_Disqualified = None, st_UnknownAuditSuspended = None,
           st_OfflineSuspended = None, st_VettedAt = Some 7\<rparr>, True) \<and>
   map_option Contained
     (snd (Update steadyTracker 0 (storeOf containedRow) (exampleRequest AuditSuccess) 7)
        exampleNode) = Some False"
  using Update_clears_contained [where db = "storeOf containedRow"
      and updateReq = "exampleRequest AuditSuccess" and record_audit = steadyTracker
      and clock = 0 and now = 7, OF run_contained_success]
  by (simp add: run_contained_success) (simp add: example_defs)

text \<open>
  C7. On a record that is not yet disqualified, a successful call sets \<open>vettedAt\<close> to
  \<open>now\<close> when it was unset and the count it has just written is at least
  \<open>auditsRequiredForVetting\<close>; otherwise, and always once \<open>vettedAt\<close> is set, it leaves
  \<open>vettedAt\<close> as it was.
\<close>

theorem Update_vetting:
  assumes "Disqualified (currentRow db (NodeID updateReq)) = None"
    and "Update record_audit clock db updateReq now = (Inr result, db')"
  shows "\<exists>row'. db' (NodeID updateReq) = Some row' \<and>
           VettedAt row' =
             (if VettedAt (currentRow db (NodeID updateReq)) = None \<and>
                 word_sle (AuditsRequiredForVetting updateReq) (TotalAuditCount row')
              then Some now
              else VettedAt (currentRow db (NodeID updateReq)))"
  using Update_success [OF assms(2) assms(1)]
  by (auto simp: appliedRow_VettedAt appliedRow_TotalAuditCount)

theorem Update_vetting_witness:
  "Disqualified (currentRow (storeOf freshRow) (NodeID (exampleRequest AuditSuccess))) = None \<and>
   VettedAt (currentRow (storeOf freshRow) (NodeID (exampleRequest AuditSuccess))) = None \<and>
   AuditsRequiredForVetting (exampleRequest AuditSuccess) = 1 \<and>
   fst (Update steadyTracker 0 (storeOf freshRow) (exampleRequest AuditSuccess) 7) =
     Inr (\<lparr>st_Contained = False, st_Disqualified = None, st_UnknownAuditSuspended = None,
           st_OfflineSuspended = None, st_VettedAt = Some 7\<rparr>, True) \<and>
   map_option TotalAuditCount
     (snd (Update steadyTracker 0 (storeOf freshRow) (exampleRequest AuditSuccess) 7) exampleNode) =
     Some 1 \<and>
   map_option VettedAt
     (snd (Update steadyTracker 0 (storeOf freshRow) (exampleRequest AuditSuccess) 7) exampleNode) =
     Some (Some 7)"
  using Update_vetting [where db = "storeOf freshRow"
      and updateReq = "exampleRequest AuditSuccess" and record_audit = steadyTracker
      and clock = 0 and now = 7, OF _ run_fresh_success]
  by (simp add: run_fresh_success) (simp add: example_defs)





text \<open>
  C10. For a node that has no record, \<open>UnsuspendNodeUnknownAudit\<close> returns no error: it
  inserts the record with an empty audit history and the column defaults, and the update
  that follows writes NULL to \<open>unknownAuditSuspended\<close>, which is what the new record
  already holds.
\<close>

theorem Unsuspend_creates_record:
  assumes "db nodeID = None"
  shows "UnsuspendNodeUnknownAudit db nodeID =
           (None, db(nodeID \<mapsto> insertedRow nodeID emptyHistoryBytes)) \<and>
         AuditHistory (insertedRow nodeID emptyHistoryBytes) = [] \<and>
         UnknownAuditSuspended (insertedRow nodeID emptyHistoryBytes) = None \<and>
         AuditReputationAlpha (insertedRow nodeID emptyHistoryBytes) = 0 \<and>
         AuditReputationBeta (insertedRow nodeID emptyHistoryBytes) = 0 \<and>
         UnknownAuditReputationAlpha (insertedRow nodeID emptyHistoryBytes) = 0 \<and>
         UnknownAuditReputationBeta (insertedRow nodeID emptyHistoryBytes) = 0 \<and>
         TotalAuditCount (insertedRow nodeID emptyHistoryBytes) = 0 \<and>
         AuditSuccessCount (insertedRow nodeID emptyHistoryBytes) = 0"
  using assms
  by (simp add: UnsuspendNodeUnknownAudit_def Get_Reputation_By_Id_def insertReputation_def
      Update_Reputation_By_Id_def applyUpdate_def no_fields_def setColumn_def setNullable_def
      insertedRow_def emptyHistoryBytes_def Let_def)

theorem Unsuspend_creates_record_witness:
  "Map.empty exampleNode = (None :: Reputation option) \<and>
   Get_Reputation_By_Id Map.empty exampleNode = Inl ErrNoRows \<and>
   UnsuspendNodeUnknownAudit Map.empty exampleNode =
     (None, storeOf (insertedRow exampleNode emptyHistoryBytes)) \<and>
   AuditHistory (insertedRow exampleNode emptyHistoryBytes) = [] \<and>
   UnknownAuditSuspended (insertedRow exampleNode emptyHistoryBytes) = None"
  using Unsuspend_creates_record [where db = Map.empty and nodeID = exampleNode]
  by (simp add: storeOf_def Get_Reputation_By_Id_def)

end
